theory Spec2Isabelle
  imports Complex_Main
begin

text \<open>
  A shallow embedding of \<open>main.py\<close>, the backend of the MAFFA website: the endpoints
  \<open>list_gigs\<close>, \<open>submit_contact\<close> and \<open>test_database\<close>. Exceptions are values of
  a sum type, every \<open>try\<close> block is a case distinction on them, and what the module
  imports or reads from outside (the document store, the clock, the ISO parser, the
  environment) is a parameter.
\<close>

section \<open>Python values\<close>

subsection \<open>Strings\<close>

text \<open>
  A Python \<open>str\<close> is a sequence of Unicode code points, and \<open>s[:50]\<close> counts code
  points. The status strings of \<open>main.py\<close> hold code points above U+00FF, so a string is
  a list of code points. \<open>ascii\<close> embeds a literal of the theory.
\<close>

type_synonym pystr = "nat list"

definition ascii :: "string \<Rightarrow> pystr" where
  "ascii s = map of_char s"

definition check_mark :: pystr where
  \<comment> \<open>U+2705\<close>
  "check_mark = [0x2705]"

definition cross_mark :: pystr where
  \<comment> \<open>U+274C\<close>
  "cross_mark = [0x274C]"

definition warning_sign :: pystr where
  \<comment> \<open>U+26A0 followed by the variation selector U+FE0F\<close>
  "warning_sign = [0x26A0, 0xFE0F]"

subsection \<open>Exceptions\<close>

text \<open>
  The subclasses of \<open>Exception\<close> that the handlers of \<open>main.py\<close> tell apart
  (\<open>except ImportError\<close> before \<open>except Exception\<close>; \<open>hasattr\<close> swallows
  \<open>AttributeError\<close> alone), each with the text that \<open>str(e)\<close> returns.
\<close>

datatype exn =
    ImportError pystr
  | AttributeError pystr
  | ValueError pystr
  | ValidationError pystr
  | OtherException pystr

fun str_exn :: "exn \<Rightarrow> pystr" where
  "str_exn (ImportError m) = m"
| "str_exn (AttributeError m) = m"
| "str_exn (ValueError m) = m"
| "str_exn (ValidationError m) = m"
| "str_exn (OtherException m) = m"

fun is_ImportError :: "exn \<Rightarrow> bool" where
  "is_ImportError (ImportError m) = True"
| "is_ImportError e = False"

fun is_AttributeError :: "exn \<Rightarrow> bool" where
  "is_AttributeError (AttributeError m) = True"
| "is_AttributeError e = False"

subsection \<open>Timestamps\<close>

text \<open>
  A \<open>datetime\<close>: the calendar fields, and the offset from UTC in microseconds of an
  aware value (\<open>None\<close> for a naive one).
\<close>

record datetime =
  year :: nat
  month :: nat
  day :: nat
  hour :: nat
  minute :: nat
  second :: nat
  microsecond :: nat
  tzoffset :: "int option"

subsection \<open>Stored values\<close>

datatype pyfloat = Finite rat | Infinite bool | NaN

text \<open>
  The values a stored document can hold. \<open>PObject\<close> is any other object (an
  \<open>ObjectId\<close>, say), which defines neither \<open>__bool__\<close> nor \<open>__len__\<close>.
\<close>

datatype pyval =
    PNone
  | PBool bool
  | PInt int
  | PFloat pyfloat
  | PStr pystr
  | PBytes "nat list"
  | PDatetime datetime
  | PList "pyval list"
  | PDict "(pystr \<times> pyval) list"
  | PObject pystr

text \<open>\<open>bool(v)\<close>: Python's truth value testing.\<close>

fun bool_py :: "pyval \<Rightarrow> bool" where
  "bool_py PNone = False"
| "bool_py (PBool b) = b"
| "bool_py (PInt i) = (i \<noteq> 0)"
| "bool_py (PFloat (Finite q)) = (q \<noteq> 0)"
| "bool_py (PFloat f) = True"
| "bool_py (PStr s) = (s \<noteq> [])"
| "bool_py (PBytes b) = (b \<noteq> [])"
| "bool_py (PDatetime t) = True"
| "bool_py (PList xs) = (xs \<noteq> [])"
| "bool_py (PDict kvs) = (kvs \<noteq> [])"
| "bool_py (PObject n) = True"

text \<open>A raw record is a \<open>dict\<close>; \<open>d.get(k, default)\<close> never raises.\<close>

type_synonym raw = "pystr \<rightharpoonup> pyval"

definition dict_get :: "raw \<Rightarrow> pystr \<Rightarrow> pyval \<Rightarrow> pyval" where
  "dict_get d k dflt = (case d k of None \<Rightarrow> dflt | Some v \<Rightarrow> v)"

section \<open>A reference parser for \<open>datetime.fromisoformat\<close>\<close>

text \<open>
  \<open>datetime.fromisoformat\<close> belongs to the Python standard library, and the set of
  strings it accepts grew from version to version, so \<open>list_gigs\<close> below takes the parser
  as a parameter and its properties are proved for every parser. \<open>isoformat_parse\<close>
  accepts the format documented since Python 3.7,
  \<open>YYYY-MM-DD[*HH[:MM[:SS[.fff[fff]]]][+HH:MM[:SS[.ffffff]]]]\<close>, with the range checks of
  the \<open>datetime\<close> constructor. Every version of the library reads these strings the same
  way; a string rejected here may be accepted by some version. It instantiates the
  parameter on concrete inputs.
\<close>

definition is_digit :: "nat \<Rightarrow> bool" where
  "is_digit c = (48 \<le> c \<and> c \<le> 57)"

fun digits_acc :: "nat \<Rightarrow> pystr \<Rightarrow> nat option" where
  "digits_acc n [] = Some n"
| "digits_acc n (c # cs) = (if is_digit c then digits_acc (10 * n + (c - 48)) cs else None)"

definition digits :: "nat \<Rightarrow> pystr \<Rightarrow> nat option" where
  \<comment> \<open>exactly \<open>k\<close> decimal digits\<close>
  "digits k s = (if length s = k \<and> 0 < k then digits_acc 0 s else None)"

definition is_leap :: "nat \<Rightarrow> bool" where
  "is_leap y = (y mod 4 = 0 \<and> (0 < y mod 100 \<or> y mod 400 = 0))"

definition days_in_month :: "nat \<Rightarrow> nat \<Rightarrow> nat" where
  "days_in_month y m =
     (if m = 2 then (if is_leap y then 29 else 28)
      else if m = 4 \<or> m = 6 \<or> m = 9 \<or> m = 11 then 30 else 31)"

definition parse_date :: "pystr \<Rightarrow> (nat \<times> nat \<times> nat) option" where
  \<comment> \<open>\<open>YYYY-MM-DD\<close>, ten characters\<close>
  "parse_date s =
     (if length s = 10 \<and> s ! 4 = 45 \<and> s ! 7 = 45 then
        (case (digits 4 (take 4 s), digits 2 (take 2 (drop 5 s)), digits 2 (drop 8 s)) of
           (Some y, Some m, Some d) \<Rightarrow>
             if 1 \<le> y \<and> 1 \<le> m \<and> m \<le> 12 \<and> 1 \<le> d \<and> d \<le> days_in_month y m
             then Some (y, m, d) else None
         | _ \<Rightarrow> None)
      else None)"

definition parse_fraction :: "pystr \<Rightarrow> nat option" where
  \<comment> \<open>what follows the seconds: nothing, or a dot and three or six digits\<close>
  "parse_fraction s =
     (if s = [] then Some 0
      else if hd s \<noteq> 46 then None
      else if length (tl s) = 3 then map_option (\<lambda>n. n * 1000) (digits 3 (tl s))
      else if length (tl s) = 6 then digits 6 (tl s)
      else None)"

definition parse_hh_mm_ss_ff :: "pystr \<Rightarrow> (nat \<times> nat \<times> nat \<times> nat) option" where
  \<comment> \<open>\<open>HH[:MM[:SS[.fff[fff]]]]\<close>\<close>
  "parse_hh_mm_ss_ff s =
     (case digits 2 (take 2 s) of None \<Rightarrow> None
      | Some h \<Rightarrow>
        if drop 2 s = [] then Some (h, 0, 0, 0)
        else if s ! 2 \<noteq> 58 then None
        else case digits 2 (take 2 (drop 3 s)) of None \<Rightarrow> None
          | Some mi \<Rightarrow>
            if drop 5 s = [] then Some (h, mi, 0, 0)
            else if s ! 5 \<noteq> 58 then None
            else case digits 2 (take 2 (drop 6 s)) of None \<Rightarrow> None
              | Some se \<Rightarrow>
                (case parse_fraction (drop 8 s) of None \<Rightarrow> None
                 | Some us \<Rightarrow> Some (h, mi, se, us)))"

definition is_sign :: "nat \<Rightarrow> bool" where
  \<comment> \<open>\<open>+\<close> or \<open>-\<close>\<close>
  "is_sign c = (c = 43 \<or> c = 45)"

definition parse_offset :: "pystr \<Rightarrow> int option option" where
  \<comment> \<open>nothing, or a sign and \<open>HH:MM[:SS[.ffffff]]\<close>; the inner \<open>None\<close> is a naive time\<close>
  "parse_offset s =
     (if s = [] then Some None
      else if length (tl s) \<notin> {5, 8, 15} then None
      else case parse_hh_mm_ss_ff (tl s) of None \<Rightarrow> None
        | Some (h, mi, se, us) \<Rightarrow>
          let off = ((int h * 60 + int mi) * 60 + int se) * 1000000 + int us
          in if 86400000000 \<le> off then None
             else Some (Some (if hd s = 45 then - off else off)))"

definition parse_time :: "pystr \<Rightarrow> (nat \<times> nat \<times> nat \<times> nat \<times> int option) option" where
  "parse_time s =
     (case parse_hh_mm_ss_ff (takeWhile (\<lambda>c. \<not> is_sign c) s) of None \<Rightarrow> None
      | Some (h, mi, se, us) \<Rightarrow>
        if 24 \<le> h \<or> 60 \<le> mi \<or> 60 \<le> se then None
        else (case parse_offset (dropWhile (\<lambda>c. \<not> is_sign c) s) of None \<Rightarrow> None
          | Some tz \<Rightarrow> Some (h, mi, se, us, tz)))"

definition isoformat_parse :: "pystr \<Rightarrow> exn + datetime" where
  "isoformat_parse s =
     (case parse_date (take 10 s) of
        None \<Rightarrow> Inl (ValueError (ascii ''Invalid isoformat string''))
      | Some (y, m, d) \<Rightarrow>
        if drop 10 s = [] then
          Inr \<lparr>year = y, month = m, day = d, hour = 0, minute = 0, second = 0,
               microsecond = 0, tzoffset = None\<rparr>
        else case parse_time (drop 11 s) of
          None \<Rightarrow> Inl (ValueError (ascii ''Invalid isoformat string''))
        | Some (h, mi, se, us, tz) \<Rightarrow>
          Inr \<lparr>year = y, month = m, day = d, hour = h, minute = mi, second = se,
               microsecond = us, tzoffset = tz\<rparr>)"

section \<open>The schema layer\<close>

text \<open>
  Modelled from the spec: the \<open>Gig\<close> model of \<open>schemas.py\<close>, which is not among the
  sources. The spec's data model gives the fields and their types: \<open>title\<close>,
  \<open>venue\<close> and \<open>city\<close> text, \<open>date\<close> a timestamp, \<open>ticket_url\<close> optional text
  (may be null), \<open>is_confirmed\<close> a boolean.
\<close>

record Gig =
  title :: pystr
  venue :: pystr
  city :: pystr
  date :: datetime
  ticket_url :: "pystr option"
  is_confirmed :: bool

text \<open>The keyword arguments of the call \<open>Gig(title=..., ..., is_confirmed=...)\<close>.\<close>

record gig_kwargs =
  kw_title :: pyval
  kw_venue :: pyval
  kw_city :: pyval
  kw_date :: pyval
  kw_ticket_url :: pyval
  kw_is_confirmed :: bool

text \<open>
  Modelled from the spec: the check of one argument against a field of type text,
  timestamp or optional text. An argument of the field's type is stored as it is; an
  argument of another type raises a validation error, whose text names the field.
\<close>

fun validate_str :: "string \<Rightarrow> pyval \<Rightarrow> exn + pystr" where
  "validate_str field (PStr s) = Inr s"
| "validate_str field v = Inl (ValidationError (ascii field))"

fun validate_datetime :: "string \<Rightarrow> pyval \<Rightarrow> exn + datetime" where
  "validate_datetime field (PDatetime t) = Inr t"
| "validate_datetime field v = Inl (ValidationError (ascii field))"

fun validate_optional_str :: "string \<Rightarrow> pyval \<Rightarrow> exn + pystr option" where
  "validate_optional_str field PNone = Inr None"
| "validate_optional_str field (PStr s) = Inr (Some s)"
| "validate_optional_str field v = Inl (ValidationError (ascii field))"

text \<open>
  Modelled from the spec: the constructor of \<open>Gig\<close>, which is not among the sources. It
  checks each argument against its field and raises the error of the first field that
  fails; \<open>is_confirmed\<close> receives the result of \<open>bool(...)\<close>, a boolean.
\<close>

definition Gig_init :: "gig_kwargs \<Rightarrow> exn + Gig" where
  "Gig_init kw =
     (case validate_str ''title'' (kw_title kw) of Inl e \<Rightarrow> Inl e | Inr t \<Rightarrow>
      (case validate_str ''venue'' (kw_venue kw) of Inl e \<Rightarrow> Inl e | Inr v \<Rightarrow>
      (case validate_str ''city'' (kw_city kw) of Inl e \<Rightarrow> Inl e | Inr c \<Rightarrow>
      (case validate_datetime ''date'' (kw_date kw) of Inl e \<Rightarrow> Inl e | Inr dt \<Rightarrow>
      (case validate_optional_str ''ticket_url'' (kw_ticket_url kw) of Inl e \<Rightarrow> Inl e | Inr u \<Rightarrow>
         Inr \<lparr>title = t, venue = v, city = c, date = dt, ticket_url = u,
              is_confirmed = kw_is_confirmed kw\<rparr>)))))"

section \<open>The collaborators of \<open>main.py\<close>\<close>

text \<open>
  An attribute of an object: absent, present with a value, or a property whose getter
  raises.
\<close>

datatype attr = NoAttr | Attr pyval | AttrRaises exn

text \<open>
  The \<open>db\<close> handle of the \<open>database\<close> module, as far as \<open>test_database\<close> touches
  it: its \<open>name\<close> attribute and the outcome of \<open>db.list_collection_names()\<close>.
\<close>

record db_handle =
  name_attr :: attr
  list_collection_names :: "exn + pystr list"

text \<open>
  Everything \<open>main.py\<close> imports or reads from its surroundings. \<open>'m\<close> is the
  \<open>Message\<close> model of \<open>schemas.py\<close>. \<open>utcnow\<close> gives the reading of the clock
  while the record at a position of the batch is converted. \<open>import_db\<close> is the outcome
  of \<open>from database import db\<close>: an exception, or the value of \<open>db\<close> (\<open>None\<close> when
  no client was initialised).
\<close>

record 'm env =
  fromisoformat :: "pystr \<Rightarrow> exn + datetime"
  utcnow :: "nat \<Rightarrow> datetime"
  get_documents :: "pystr \<Rightarrow> raw \<Rightarrow> int \<Rightarrow> exn + raw list"
  create_document :: "pystr \<Rightarrow> 'm \<Rightarrow> exn + pystr"
  import_db :: "exn + db_handle option"
  getenv :: "pystr \<Rightarrow> pystr option"

text \<open>
  What an endpoint hands to the framework: a value, answered with status 200, or a raised
  \<open>HTTPException(status_code, detail)\<close>.
\<close>

datatype 'a response = Ok 'a | HTTPException nat pystr

section \<open>\<open>list_gigs\<close>\<close>

text \<open>Lines 34 to 39: the value bound to \<open>date_val\<close>.\<close>

fun coerce_date :: "(pystr \<Rightarrow> exn + datetime) \<Rightarrow> datetime \<Rightarrow> pyval \<Rightarrow> pyval" where
  "coerce_date parse now (PStr s) =
     (case parse s of Inr t \<Rightarrow> PDatetime t | Inl e \<Rightarrow> PDatetime now)"
| "coerce_date parse now v = v"

definition date_val :: "'m env \<Rightarrow> nat \<Rightarrow> raw \<Rightarrow> pyval" where
  "date_val E i d = coerce_date (fromisoformat E) (utcnow E i) (dict_get d (ascii ''date'') PNone)"

text \<open>Lines 40 to 47: the arguments of the \<open>Gig\<close> call.\<close>

definition kwargs_of :: "'m env \<Rightarrow> nat \<Rightarrow> raw \<Rightarrow> gig_kwargs" where
  "kwargs_of E i d =
     \<lparr>kw_title = dict_get d (ascii ''title'') (PStr []),
      kw_venue = dict_get d (ascii ''venue'') (PStr []),
      kw_city = dict_get d (ascii ''city'') (PStr []),
      kw_date = date_val E i d,
      kw_ticket_url = dict_get d (ascii ''ticket_url'') PNone,
      kw_is_confirmed = bool_py (dict_get d (ascii ''is_confirmed'') (PBool True))\<rparr>"

text \<open>
  The body of the loop for the record \<open>d\<close> at position \<open>i\<close>; the spec calls it
  \<open>normalize\<close>.
\<close>

definition normalize :: "'m env \<Rightarrow> nat \<Rightarrow> raw \<Rightarrow> exn + Gig" where
  "normalize E i d = Gig_init (kwargs_of E i d)"

text \<open>
  The \<open>for\<close> loop, with the list \<open>gigs\<close> built so far; its length is the position of
  the next record.
\<close>

fun gigs_loop :: "'m env \<Rightarrow> raw list \<Rightarrow> Gig list \<Rightarrow> exn + Gig list" where
  "gigs_loop E [] gigs = Inr gigs"
| "gigs_loop E (d # docs) gigs =
     (case normalize E (length gigs) d of
        Inl e \<Rightarrow> Inl e
      | Inr g \<Rightarrow> gigs_loop E docs (gigs @ [g]))"

text \<open>The body of the \<open>try\<close> block, lines 29 to 48.\<close>

definition list_gigs_try :: "'m env \<Rightarrow> int \<Rightarrow> exn + Gig list" where
  "list_gigs_try E limit =
     (case get_documents E (ascii ''gig'') Map.empty limit of
        Inl e \<Rightarrow> Inl e
      | Inr docs \<Rightarrow> gigs_loop E docs [])"

definition list_gigs :: "'m env \<Rightarrow> int \<Rightarrow> Gig list response" where
  "list_gigs E limit =
     (case list_gigs_try E limit of
        Inr gigs \<Rightarrow> Ok gigs
      | Inl e \<Rightarrow> Ok [])"

section \<open>\<open>submit_contact\<close>\<close>

definition submit_contact :: "'m env \<Rightarrow> 'm \<Rightarrow> (pystr \<rightharpoonup> pystr) response" where
  "submit_contact E message =
     (case create_document E (ascii ''message'') message of
        Inr doc_id \<Rightarrow> Ok [ascii ''status'' \<mapsto> ascii ''ok'', ascii ''id'' \<mapsto> doc_id]
      | Inl e \<Rightarrow> HTTPException 500 (str_exn e))"

section \<open>\<open>test_database\<close>\<close>

record report =
  backend :: pystr
  database :: pystr
  database_url :: pyval
  database_name :: pyval
  connection_status :: pystr
  collections :: "pystr list"

definition initial_report :: report where
  "initial_report =
     \<lparr>backend = check_mark @ ascii '' Running'',
      database = cross_mark @ ascii '' Not Available'',
      database_url = PNone,
      database_name = PNone,
      connection_status = ascii ''Not Connected'',
      collections = []\<rparr>"

text \<open>
  \<open>hasattr(db, 'name')\<close> gets the attribute and answers \<open>False\<close> on an
  \<open>AttributeError\<close>; any other exception of the getter propagates.
\<close>

fun hasattr :: "attr \<Rightarrow> exn + bool" where
  "hasattr NoAttr = Inr False"
| "hasattr (Attr v) = Inr True"
| "hasattr (AttrRaises e) = (if is_AttributeError e then Inr False else Inl e)"

text \<open>Line 80: \<open>db.name if hasattr(db, 'name') else "... Connected"\<close>.\<close>

definition name_or_connected :: "db_handle \<Rightarrow> exn + pyval" where
  "name_or_connected db =
     (case hasattr (name_attr db) of
        Inl e \<Rightarrow> Inl e
      | Inr False \<Rightarrow> Inr (PStr (check_mark @ ascii '' Connected''))
      | Inr True \<Rightarrow>
          (case name_attr db of
             Attr v \<Rightarrow> Inr v
           | AttrRaises e \<Rightarrow> Inl e
           | NoAttr \<Rightarrow> Inl (AttributeError (ascii ''name''))))"

text \<open>
  Lines 83 to 88, the inner \<open>try\<close>: the handler catches every exception, so the block
  always yields a report.
\<close>

definition list_collections :: "db_handle \<Rightarrow> report \<Rightarrow> report" where
  "list_collections db r =
     (case list_collection_names db of
        Inr cs \<Rightarrow>
          r\<lparr>collections := take 10 cs,
            database := check_mark @ ascii '' Connected & Working''\<rparr>
      | Inl e \<Rightarrow>
          r\<lparr>database := warning_sign @ ascii ''  Connected but Error: '' @ take 50 (str_exn e)\<rparr>)"

text \<open>
  Lines 75 to 90, the body of the outer \<open>try\<close>: the report as far as it was updated,
  and the exception that ended the block, if any.
\<close>

definition test_database_try :: "'m env \<Rightarrow> report \<Rightarrow> report \<times> exn option" where
  "test_database_try E r =
     (case import_db E of
        Inl e \<Rightarrow> (r, Some e)
      | Inr None \<Rightarrow>
          (r\<lparr>database := warning_sign @ ascii ''  Available but not initialized''\<rparr>, None)
      | Inr (Some db) \<Rightarrow>
          (let r1 = r\<lparr>database := check_mark @ ascii '' Available'',
                      database_url := PStr (check_mark @ ascii '' Configured'')\<rparr>
           in case name_or_connected db of
                Inl e \<Rightarrow> (r1, Some e)
              | Inr n \<Rightarrow>
                  (list_collections db
                     (r1\<lparr>database_name := n, connection_status := ascii ''Connected''\<rparr>),
                   None)))"

text \<open>Lines 92 to 95: the two handlers of the outer \<open>try\<close>.\<close>

definition test_database_except :: "report \<times> exn option \<Rightarrow> report" where
  "test_database_except p =
     (case p of
        (r, None) \<Rightarrow> r
      | (r, Some e) \<Rightarrow>
          if is_ImportError e
          then r\<lparr>database := cross_mark
                   @ ascii '' Database module not found (run enable-database first)''\<rparr>
          else r\<lparr>database := cross_mark @ ascii '' Error: '' @ take 50 (str_exn e)\<rparr>)"

text \<open>\<open>os.getenv(k)\<close>: the value of the variable, or \<open>None\<close> when it is not set.\<close>

definition os_getenv :: "'m env \<Rightarrow> pystr \<Rightarrow> pyval" where
  "os_getenv E k = (case getenv E k of None \<Rightarrow> PNone | Some v \<Rightarrow> PStr v)"

text \<open>Lines 97 and 98: \<open>"... Set" if os.getenv(k) else "... Not Set"\<close>.\<close>

definition set_marker :: "'m env \<Rightarrow> pystr \<Rightarrow> pyval" where
  "set_marker E k =
     (if bool_py (os_getenv E k)
      then PStr (check_mark @ ascii '' Set'')
      else PStr (cross_mark @ ascii '' Not Set''))"

definition test_database :: "'m env \<Rightarrow> report response" where
  "test_database E =
     (let r = test_database_except (test_database_try E initial_report)
      in Ok (r\<lparr>database_url := set_marker E (ascii ''DATABASE_URL''),
               database_name := set_marker E (ascii ''DATABASE_NAME'')\<rparr>))"

section \<open>Example data\<close>

definition noon :: datetime where
  "noon = \<lparr>year = 2026, month = 1, day = 15, hour = 12, minute = 0, second = 0,
           microsecond = 0, tzoffset = None\<rparr>"

definition opening_night :: datetime where
  "opening_night = \<lparr>year = 2024, month = 6, day = 1, hour = 20, minute = 0, second = 0,
                    microsecond = 0, tzoffset = None\<rparr>"

text \<open>A stored gig with an ISO date, no venue, no ticket URL and \<open>is_confirmed = 0\<close>.\<close>

definition dated_gig :: raw where
  "dated_gig =
     [ascii ''title'' \<mapsto> PStr (ascii ''Night Shift''),
      ascii ''city'' \<mapsto> PStr (ascii ''Berlin''),
      ascii ''date'' \<mapsto> PStr (ascii ''2024-06-01T20:00:00''),
      ascii ''is_confirmed'' \<mapsto> PInt 0]"

text \<open>A stored gig whose date is a native timestamp.\<close>

definition native_gig :: raw where
  "native_gig =
     [ascii ''title'' \<mapsto> PStr (ascii ''Matinee''),
      ascii ''date'' \<mapsto> PDatetime opening_night,
      ascii ''ticket_url'' \<mapsto> PStr (ascii ''https://tickets.example/42'')]"

text \<open>A stored gig whose date does not parse.\<close>

definition misdated_gig :: raw where
  "misdated_gig =
     [ascii ''venue'' \<mapsto> PStr (ascii ''Hall 3''),
      ascii ''date'' \<mapsto> PStr (ascii ''not-a-date''),
      ascii ''is_confirmed'' \<mapsto> PStr (ascii ''false'')]"

text \<open>A stored gig with no date at all.\<close>

definition undated_gig :: raw where
  "undated_gig =
     [ascii ''title'' \<mapsto> PStr (ascii ''Warehouse''),
      ascii ''venue'' \<mapsto> PStr (ascii ''Hall 3''),
      ascii ''city'' \<mapsto> PStr (ascii ''Turin'')]"

definition example_db :: db_handle where
  "example_db =
     \<lparr>name_attr = Attr (PStr (ascii ''maffa'')),
      list_collection_names =
        Inr (map ascii [''gig'', ''message'', ''mix'', ''track'', ''venue'', ''press'',
                        ''photo'', ''video'', ''booking'', ''rider'', ''newsletter'', ''session''])\<rparr>"

definition example_env :: "pystr env" where
  "example_env =
     \<lparr>fromisoformat = isoformat_parse,
      utcnow = (\<lambda>i. noon),
      get_documents = (\<lambda>kind flt limit. Inr [dated_gig, undated_gig]),
      create_document = (\<lambda>kind message. Inr (ascii ''65f1c0de'')),
      import_db = Inr (Some example_db),
      getenv = Map.empty\<rparr>"

section \<open>Auxiliary facts\<close>

lemma ascii_eq_iff: "ascii s = ascii t \<longleftrightarrow> s = t"
  by (simp add: ascii_def inj_map_eq_map [OF inj_of_char])

lemmas parser_defs = isoformat_parse_def parse_date_def parse_time_def parse_offset_def
  parse_hh_mm_ss_ff_def parse_fraction_def digits_def is_digit_def is_sign_def
  days_in_month_def is_leap_def

lemma parse_opening_night:
  "isoformat_parse (ascii ''2024-06-01T20:00:00'') = Inr opening_night"
  by (simp add: parser_defs ascii_def opening_night_def)

lemma parse_not_a_date:
  "isoformat_parse (ascii ''not-a-date'') = Inl (ValueError (ascii ''Invalid isoformat string''))"
  by (simp add: parser_defs ascii_def)

lemma coerce_date_is_datetime:
  "\<exists>t. coerce_date parse now (PStr s) = PDatetime t"
  by (cases "parse s") simp_all

lemma validate_str_Inr: "validate_str f v = Inr s \<longleftrightarrow> v = PStr s"
  by (cases v) auto

lemma validate_datetime_Inr: "validate_datetime f v = Inr t \<longleftrightarrow> v = PDatetime t"
  by (cases v) auto

lemma validate_optional_str_Inr:
  "validate_optional_str f v = Inr u \<longleftrightarrow> (v = PNone \<and> u = None) \<or> (\<exists>s. v = PStr s \<and> u = Some s)"
  by (cases v) auto

text \<open>A \<open>Gig\<close> is built exactly from arguments of the field types, and holds them.\<close>

lemma Gig_init_Inr:
  "Gig_init kw = Inr g \<longleftrightarrow>
     kw_title kw = PStr (title g) \<and> kw_venue kw = PStr (venue g) \<and> kw_city kw = PStr (city g)
     \<and> kw_date kw = PDatetime (date g)
     \<and> kw_ticket_url kw = (case ticket_url g of None \<Rightarrow> PNone | Some s \<Rightarrow> PStr s)
     \<and> kw_is_confirmed kw = is_confirmed g"
  by (cases g)
     (auto simp: Gig_init_def validate_str_Inr validate_datetime_Inr validate_optional_str_Inr
           split: sum.splits option.splits)

text \<open>A record is converted exactly when each argument of the \<open>Gig\<close> call fits its field.\<close>

lemma normalize_Inr:
  "normalize E i d = Inr g \<longleftrightarrow>
     dict_get d (ascii ''title'') (PStr []) = PStr (title g)
     \<and> dict_get d (ascii ''venue'') (PStr []) = PStr (venue g)
     \<and> dict_get d (ascii ''city'') (PStr []) = PStr (city g)
     \<and> date_val E i d = PDatetime (date g)
     \<and> dict_get d (ascii ''ticket_url'') PNone = (case ticket_url g of None \<Rightarrow> PNone | Some s \<Rightarrow> PStr s)
     \<and> bool_py (dict_get d (ascii ''is_confirmed'') (PBool True)) = is_confirmed g"
  by (simp add: normalize_def Gig_init_Inr kwargs_of_def)

section \<open>Conversion of one stored record\<close>

text \<open>
  Claim C1, as stated, fails: the conversion of a record inside \<open>list_gigs\<close> can raise.
  \<open>d.get("date")\<close> has no default, so for a record without a date the \<open>Gig\<close> call
  receives \<open>None\<close> for its timestamp field and raises a validation error.
\<close>

theorem normalize_undated_raises:
  "normalize example_env 0 undated_gig = Inl (ValidationError (ascii ''date''))"
  by (simp add: normalize_def kwargs_of_def date_val_def dict_get_def Gig_init_def
        undated_gig_def ascii_eq_iff)

text \<open>
  Claim C1, amended: for every raw record whose \<open>date\<close> is a string or a timestamp, whose
  \<open>title\<close>, \<open>venue\<close> and \<open>city\<close> are text where present, and whose \<open>ticket_url\<close>
  is absent, null or text, the conversion does not raise and yields a \<open>Gig\<close> with every
  field populated from the record or its default; \<open>ticket_url\<close> is the only field that
  may be null.
\<close>

theorem normalize_well_typed:
  assumes "d (ascii ''title'') = None \<or> (\<exists>s. d (ascii ''title'') = Some (PStr s))"
    and "d (ascii ''venue'') = None \<or> (\<exists>s. d (ascii ''venue'') = Some (PStr s))"
    and "d (ascii ''city'') = None \<or> (\<exists>s. d (ascii ''city'') = Some (PStr s))"
    and "(\<exists>s. d (ascii ''date'') = Some (PStr s)) \<or> (\<exists>t. d (ascii ''date'') = Some (PDatetime t))"
    and "d (ascii ''ticket_url'') = None \<or> d (ascii ''ticket_url'') = Some PNone
         \<or> (\<exists>s. d (ascii ''ticket_url'') = Some (PStr s))"
  shows "\<exists>g. normalize E i d = Inr g
           \<and> PStr (title g) = dict_get d (ascii ''title'') (PStr [])
           \<and> PStr (venue g) = dict_get d (ascii ''venue'') (PStr [])
           \<and> PStr (city g) = dict_get d (ascii ''city'') (PStr [])
           \<and> PDatetime (date g) = date_val E i d
           \<and> is_confirmed g = bool_py (dict_get d (ascii ''is_confirmed'') (PBool True))
           \<and> (case ticket_url g of None \<Rightarrow> PNone | Some s \<Rightarrow> PStr s)
               = dict_get d (ascii ''ticket_url'') PNone"
proof -
  obtain t where t: "dict_get d (ascii ''title'') (PStr []) = PStr t"
    using assms(1) by (auto simp: dict_get_def)
  obtain v where v: "dict_get d (ascii ''venue'') (PStr []) = PStr v"
    using assms(2) by (auto simp: dict_get_def)
  obtain c where c: "dict_get d (ascii ''city'') (PStr []) = PStr c"
    using assms(3) by (auto simp: dict_get_def)
  have "\<exists>dt. date_val E i d = PDatetime dt"
  proof -
    from assms(4) consider s where "d (ascii ''date'') = Some (PStr s)"
      | t where "d (ascii ''date'') = Some (PDatetime t)"
      by blast
    then show ?thesis
    proof cases
      case 1
      then show ?thesis
        using coerce_date_is_datetime [of "fromisoformat E" "utcnow E i" s]
        by (simp only: date_val_def dict_get_def option.case)
    next
      case 2
      then show ?thesis by (simp add: date_val_def dict_get_def)
    qed
  qed
  then obtain dt where dt: "date_val E i d = PDatetime dt" ..
  obtain u where u: "dict_get d (ascii ''ticket_url'') PNone = (case u of None \<Rightarrow> PNone | Some s \<Rightarrow> PStr s)"
  proof -
    from assms(5) consider "dict_get d (ascii ''ticket_url'') PNone = PNone"
      | s where "dict_get d (ascii ''ticket_url'') PNone = PStr s"
      by (auto simp: dict_get_def)
    then show ?thesis
    proof cases
      case 1 then show ?thesis using that [of None] by simp
    next
      case 2 then show ?thesis using that [of "Some s"] by simp
    qed
  qed
  define g where "g = \<lparr>title = t, venue = v, city = c, date = dt, ticket_url = u,
     is_confirmed = bool_py (dict_get d (ascii ''is_confirmed'') (PBool True))\<rparr>"
  have "normalize E i d = Inr g"
    by (simp add: normalize_Inr g_def t v c dt u)
  then show ?thesis
    by (intro exI [of _ g]) (simp add: g_def t v c dt u)
qed

text \<open>
  Witness for C1: the record \<open>dated_gig\<close> meets every hypothesis and becomes a \<open>Gig\<close>
  with an empty venue and no ticket URL.
\<close>

theorem normalize_well_typed_witness:
  "\<exists>g. normalize example_env 0 dated_gig = Inr g
      \<and> title g = ascii ''Night Shift'' \<and> venue g = [] \<and> city g = ascii ''Berlin''
      \<and> date g = opening_night \<and> \<not> is_confirmed g \<and> ticket_url g = None"
proof -
  have h1: "dated_gig (ascii ''title'') = None \<or> (\<exists>s. dated_gig (ascii ''title'') = Some (PStr s))"
    and h2: "dated_gig (ascii ''venue'') = None \<or> (\<exists>s. dated_gig (ascii ''venue'') = Some (PStr s))"
    and h3: "dated_gig (ascii ''city'') = None \<or> (\<exists>s. dated_gig (ascii ''city'') = Some (PStr s))"
    and h4: "(\<exists>s. dated_gig (ascii ''date'') = Some (PStr s)) \<or> (\<exists>t. dated_gig (ascii ''date'') = Some (PDatetime t))"
    and h5: "dated_gig (ascii ''ticket_url'') = None \<or> dated_gig (ascii ''ticket_url'') = Some PNone
         \<or> (\<exists>s. dated_gig (ascii ''ticket_url'') = Some (PStr s))"
    by (simp_all add: dated_gig_def ascii_eq_iff)
  from normalize_well_typed [OF h1 h2 h3 h4 h5, of example_env 0]
  obtain g where g: "normalize example_env 0 dated_gig = Inr g"
    "PStr (title g) = dict_get dated_gig (ascii ''title'') (PStr [])"
    "PStr (venue g) = dict_get dated_gig (ascii ''venue'') (PStr [])"
    "PStr (city g) = dict_get dated_gig (ascii ''city'') (PStr [])"
    "PDatetime (date g) = date_val example_env 0 dated_gig"
    "is_confirmed g = bool_py (dict_get dated_gig (ascii ''is_confirmed'') (PBool True))"
    "(case ticket_url g of None \<Rightarrow> PNone | Some s \<Rightarrow> PStr s)
               = dict_get dated_gig (ascii ''ticket_url'') PNone"
    by blast
  have "title g = ascii ''Night Shift''" using g(2) by (simp add: dict_get_def dated_gig_def ascii_eq_iff)
  moreover have "venue g = []" using g(3) by (simp add: dict_get_def dated_gig_def ascii_eq_iff)
  moreover have "city g = ascii ''Berlin''" using g(4) by (simp add: dict_get_def dated_gig_def ascii_eq_iff)
  moreover have "date g = opening_night" using g(5)
    by (simp add: date_val_def dict_get_def dated_gig_def ascii_eq_iff example_env_def parse_opening_night)
  moreover have "\<not> is_confirmed g" using g(6) by (simp add: dict_get_def dated_gig_def ascii_eq_iff)
  moreover have "ticket_url g = None" using g(7)
    by (cases "ticket_url g") (simp_all add: dict_get_def dated_gig_def ascii_eq_iff)
  ultimately show ?thesis using g(1) by blast
qed

text \<open>
  Claim C2: the date of a record is coerced as follows. A stored timestamp is used
  unchanged; a stored string that \<open>fromisoformat\<close> parses becomes the parsed timestamp
  (\<open>2024-06-01T20:00:00\<close> becomes 1 June 2024, 20:00:00, under the reference parser);
  a stored string that \<open>fromisoformat\<close> rejects becomes the reading of the clock at that
  moment, not an error and not a null date. A \<open>Gig\<close> that is built carries that value.
\<close>

theorem date_coercion:
  "(d (ascii ''date'') = Some (PDatetime t) \<longrightarrow> date_val E i d = PDatetime t)
   \<and> (d (ascii ''date'') = Some (PStr s) \<and> fromisoformat E s = Inr t
        \<longrightarrow> date_val E i d = PDatetime t)
   \<and> (d (ascii ''date'') = Some (PStr s) \<and> fromisoformat E s = Inl e
        \<longrightarrow> date_val E i d = PDatetime (utcnow E i))
   \<and> (normalize E i d = Inr g \<longrightarrow> PDatetime (date g) = date_val E i d)
   \<and> (d (ascii ''date'') = Some (PStr (ascii ''2024-06-01T20:00:00''))
        \<and> fromisoformat E = isoformat_parse
        \<longrightarrow> date_val E i d = PDatetime opening_night)"
  by (simp add: date_val_def dict_get_def normalize_Inr parse_opening_night)

text \<open>
  Witness for C2: a native timestamp, the string \<open>2024-06-01T20:00:00\<close> and the string
  \<open>not-a-date\<close>, with the reference parser.
\<close>

theorem date_coercion_witness:
  "date_val example_env 0 native_gig = PDatetime opening_night
   \<and> isoformat_parse (ascii ''2024-06-01T20:00:00'') = Inr opening_night
   \<and> date_val example_env 0 dated_gig = PDatetime opening_night
   \<and> (\<exists>e. isoformat_parse (ascii ''not-a-date'') = Inl e)
   \<and> date_val example_env 7 misdated_gig = PDatetime (utcnow example_env 7)
   \<and> (\<exists>g. normalize example_env 0 dated_gig = Inr g \<and> date g = opening_night)"
proof -
  let ?bad = "ValueError (ascii ''Invalid isoformat string'')"
  let ?g = "\<lparr>title = ascii ''Night Shift'', venue = [], city = ascii ''Berlin'',
              date = opening_night, ticket_url = None, is_confirmed = False\<rparr>"
  have iso: "fromisoformat example_env = isoformat_parse"
    by (simp add: example_env_def)
  have native: "native_gig (ascii ''date'') = Some (PDatetime opening_night)"
    by (simp add: native_gig_def ascii_eq_iff)
  have dated: "dated_gig (ascii ''date'') = Some (PStr (ascii ''2024-06-01T20:00:00''))"
    by (simp add: dated_gig_def ascii_eq_iff)
  have misdated: "misdated_gig (ascii ''date'') = Some (PStr (ascii ''not-a-date''))"
    by (simp add: misdated_gig_def ascii_eq_iff)
  have a: "date_val example_env 0 native_gig = PDatetime opening_night"
    using date_coercion [of native_gig opening_night example_env 0] native by simp
  have b: "date_val example_env 0 dated_gig = PDatetime opening_night"
    using date_coercion [of dated_gig opening_night example_env 0 "ascii ''2024-06-01T20:00:00''"]
      dated iso parse_opening_night by simp
  have c: "date_val example_env 7 misdated_gig = PDatetime (utcnow example_env 7)"
    using date_coercion [of misdated_gig _ example_env 7 "ascii ''not-a-date''" ?bad]
      misdated iso parse_not_a_date by simp
  have n: "normalize example_env 0 dated_gig = Inr ?g"
    unfolding normalize_Inr b by (simp add: dict_get_def dated_gig_def ascii_eq_iff)
  have d: "date ?g = opening_night"
    using date_coercion [of dated_gig _ example_env 0 _ _ ?g] n b by simp
  from a b c n d parse_opening_night parse_not_a_date show ?thesis by auto
qed

text \<open>
  Claim C4: the \<open>title\<close>, \<open>venue\<close> and \<open>city\<close> passed to \<open>Gig\<close> are the stored
  value when the key is present and the empty string when it is absent, never null; a
  \<open>Gig\<close> that is built holds exactly these texts.
\<close>

theorem text_defaults:
  "kw_title (kwargs_of E i d) = (case d (ascii ''title'') of None \<Rightarrow> PStr [] | Some v \<Rightarrow> v)
   \<and> kw_venue (kwargs_of E i d) = (case d (ascii ''venue'') of None \<Rightarrow> PStr [] | Some v \<Rightarrow> v)
   \<and> kw_city (kwargs_of E i d) = (case d (ascii ''city'') of None \<Rightarrow> PStr [] | Some v \<Rightarrow> v)
   \<and> (normalize E i d = Inr g \<longrightarrow>
        PStr (title g) = (case d (ascii ''title'') of None \<Rightarrow> PStr [] | Some v \<Rightarrow> v)
        \<and> PStr (venue g) = (case d (ascii ''venue'') of None \<Rightarrow> PStr [] | Some v \<Rightarrow> v)
        \<and> PStr (city g) = (case d (ascii ''city'') of None \<Rightarrow> PStr [] | Some v \<Rightarrow> v))"
  by (simp add: kwargs_of_def dict_get_def normalize_Inr)

text \<open>Witness for C4: a record with a venue and neither title nor city.\<close>

theorem text_defaults_witness:
  "misdated_gig (ascii ''title'') = None \<and> misdated_gig (ascii ''city'') = None
   \<and> (\<exists>g. normalize example_env 0 misdated_gig = Inr g
          \<and> title g = [] \<and> venue g = ascii ''Hall 3'' \<and> city g = [])"
proof -
  let ?g = "\<lparr>title = [], venue = ascii ''Hall 3'', city = [], date = noon,
              ticket_url = None, is_confirmed = True\<rparr>"
  have keys: "misdated_gig (ascii ''title'') = None" "misdated_gig (ascii ''city'') = None"
    "misdated_gig (ascii ''venue'') = Some (PStr (ascii ''Hall 3''))"
    by (simp_all add: misdated_gig_def ascii_eq_iff)
  have n: "normalize example_env 0 misdated_gig = Inr ?g"
    by (simp add: normalize_Inr date_val_def dict_get_def misdated_gig_def ascii_eq_iff
          example_env_def parse_not_a_date ascii_def [of "''false''"])
  from text_defaults [of example_env 0 misdated_gig ?g] n keys
  show ?thesis by simp
qed

text \<open>
  Claim C5: \<open>is_confirmed\<close> is the truth value of the stored value when the key is
  present, so a stored \<open>0\<close> gives false, and true when the key is absent; nothing parses
  the value as a boolean.
\<close>

theorem is_confirmed_truthiness:
  "kw_is_confirmed (kwargs_of E i d)
     = (case d (ascii ''is_confirmed'') of None \<Rightarrow> True | Some v \<Rightarrow> bool_py v)
   \<and> (normalize E i d = Inr g \<longrightarrow>
        is_confirmed g = (case d (ascii ''is_confirmed'') of None \<Rightarrow> True | Some v \<Rightarrow> bool_py v)
        \<and> (d (ascii ''is_confirmed'') = Some (PInt 0) \<longrightarrow> \<not> is_confirmed g)
        \<and> (d (ascii ''is_confirmed'') = None \<longrightarrow> is_confirmed g))"
  by (auto simp: kwargs_of_def dict_get_def normalize_Inr split: option.splits)

text \<open>
  Witness for C5: a stored \<open>0\<close> gives false, an absent key gives true, and the stored
  text \<open>false\<close>, a non-empty string, gives true.
\<close>

theorem is_confirmed_truthiness_witness:
  "(\<exists>g. normalize example_env 0 dated_gig = Inr g \<and> \<not> is_confirmed g)
   \<and> (\<exists>g. normalize example_env 0 native_gig = Inr g \<and> is_confirmed g)
   \<and> (\<exists>g. normalize example_env 0 misdated_gig = Inr g \<and> is_confirmed g)"
proof -
  let ?g1 = "\<lparr>title = ascii ''Night Shift'', venue = [], city = ascii ''Berlin'',
              date = opening_night, ticket_url = None, is_confirmed = False\<rparr>"
  let ?g2 = "\<lparr>title = ascii ''Matinee'', venue = [], city = [],
              date = opening_night, ticket_url = Some (ascii ''https://tickets.example/42''),
              is_confirmed = True\<rparr>"
  let ?g3 = "\<lparr>title = [], venue = ascii ''Hall 3'', city = [], date = noon,
              ticket_url = None, is_confirmed = True\<rparr>"
  have n1: "normalize example_env 0 dated_gig = Inr ?g1"
    by (simp add: normalize_Inr date_val_def dict_get_def dated_gig_def ascii_eq_iff
          example_env_def parse_opening_night)
  have n2: "normalize example_env 0 native_gig = Inr ?g2"
    by (simp add: normalize_Inr date_val_def dict_get_def native_gig_def ascii_eq_iff)
  have n3: "normalize example_env 0 misdated_gig = Inr ?g3"
    by (simp add: normalize_Inr date_val_def dict_get_def misdated_gig_def ascii_eq_iff
          example_env_def parse_not_a_date ascii_def [of "''false''"])
  have k1: "dated_gig (ascii ''is_confirmed'') = Some (PInt 0)"
    by (simp add: dated_gig_def ascii_eq_iff)
  have k2: "native_gig (ascii ''is_confirmed'') = None"
    by (simp add: native_gig_def ascii_eq_iff)
  have k3: "misdated_gig (ascii ''is_confirmed'') = Some (PStr (ascii ''false''))"
    by (simp add: misdated_gig_def ascii_eq_iff)
  have "\<not> is_confirmed ?g1"
    using is_confirmed_truthiness [of example_env 0 dated_gig ?g1] n1 k1 by simp
  moreover have "is_confirmed ?g2"
    using is_confirmed_truthiness [of example_env 0 native_gig ?g2] n2 k2 by simp
  moreover have "is_confirmed ?g3"
    using is_confirmed_truthiness [of example_env 0 misdated_gig ?g3] n3 k3 by simp
  ultimately show ?thesis using n1 n2 n3 by blast
qed

section \<open>The listing endpoint\<close>

text \<open>The three example records, converted.\<close>

lemma normalize_dated:
  "normalize example_env i dated_gig =
     Inr \<lparr>title = ascii ''Night Shift'', venue = [], city = ascii ''Berlin'',
          date = opening_night, ticket_url = None, is_confirmed = False\<rparr>"
  by (simp add: normalize_Inr date_val_def dict_get_def dated_gig_def ascii_eq_iff
        example_env_def parse_opening_night)

lemma normalize_native:
  "normalize E i native_gig =
     Inr \<lparr>title = ascii ''Matinee'', venue = [], city = [], date = opening_night,
          ticket_url = Some (ascii ''https://tickets.example/42''), is_confirmed = True\<rparr>"
  by (simp add: normalize_Inr date_val_def dict_get_def native_gig_def ascii_eq_iff)

lemma normalize_undated:
  "normalize E i undated_gig = Inl (ValidationError (ascii ''date''))"
  by (simp add: normalize_def kwargs_of_def date_val_def dict_get_def Gig_init_def
        undated_gig_def ascii_eq_iff)

text \<open>
  A record that fails at its position makes the loop fail, whatever was collected before
  it.
\<close>

lemma gigs_loop_fails:
  "i < length docs \<Longrightarrow> normalize E (length gigs + i) (docs ! i) = Inl e
     \<Longrightarrow> \<exists>e'. gigs_loop E docs gigs = Inl e'"
proof (induction docs arbitrary: gigs i)
  case Nil
  then show ?case by simp
next
  case (Cons d docs)
  show ?case
  proof (cases "normalize E (length gigs) d")
    case (Inl e0)
    then show ?thesis by simp
  next
    case (Inr g)
    show ?thesis
    proof (cases i)
      case 0
      with Cons.prems Inr show ?thesis by simp
    next
      case (Suc j)
      with Cons.prems have "j < length docs"
        and "normalize E (length (gigs @ [g]) + j) (docs ! j) = Inl e"
        by simp_all
      from Cons.IH [OF this] Inr show ?thesis by simp
    qed
  qed
qed

text \<open>
  Claim C3: for every limit and every behaviour of the store, \<open>list_gigs\<close> answers with
  a list and never with an HTTP error; when the query raises (a missing database
  included) or the conversion of the records raises, the answer is the empty list.
  Otherwise it is the list of converted records.
\<close>

theorem list_gigs_swallows_errors:
  "(\<exists>gigs. list_gigs E limit = Ok gigs)
   \<and> (get_documents E (ascii ''gig'') Map.empty limit = Inl e \<longrightarrow> list_gigs E limit = Ok [])
   \<and> (get_documents E (ascii ''gig'') Map.empty limit = Inr docs \<and> gigs_loop E docs [] = Inl e
        \<longrightarrow> list_gigs E limit = Ok [])
   \<and> (get_documents E (ascii ''gig'') Map.empty limit = Inr docs \<and> gigs_loop E docs [] = Inr gigs
        \<longrightarrow> list_gigs E limit = Ok gigs)"
  by (simp add: list_gigs_def list_gigs_try_def split: sum.splits)

text \<open>
  Witness for C3: a store that raises on the query, a batch whose second record has no
  date, and a batch of one well-formed record.
\<close>

theorem list_gigs_swallows_errors_witness:
  "list_gigs (example_env\<lparr>get_documents :=
       \<lambda>kind flt limit. Inl (OtherException (ascii ''Database not available''))\<rparr>) 20 = Ok []
   \<and> gigs_loop example_env [dated_gig, undated_gig] [] = Inl (ValidationError (ascii ''date''))
   \<and> list_gigs example_env 20 = Ok []
   \<and> list_gigs (example_env\<lparr>get_documents := \<lambda>kind flt limit. Inr [native_gig]\<rparr>) 20
       = Ok [\<lparr>title = ascii ''Matinee'', venue = [], city = [], date = opening_night,
              ticket_url = Some (ascii ''https://tickets.example/42''), is_confirmed = True\<rparr>]"
proof -
  let ?down = "example_env\<lparr>get_documents :=
       \<lambda>kind flt limit. Inl (OtherException (ascii ''Database not available''))\<rparr>"
  let ?one = "example_env\<lparr>get_documents := \<lambda>kind flt limit. Inr [native_gig]\<rparr>"
  let ?g = "\<lparr>title = ascii ''Matinee'', venue = [], city = [], date = opening_night,
              ticket_url = Some (ascii ''https://tickets.example/42''), is_confirmed = True\<rparr>"
  have q1: "get_documents ?down (ascii ''gig'') Map.empty 20
              = Inl (OtherException (ascii ''Database not available''))"
    by simp
  have q2: "get_documents example_env (ascii ''gig'') Map.empty 20 = Inr [dated_gig, undated_gig]"
    by (simp add: example_env_def)
  have q3: "get_documents ?one (ascii ''gig'') Map.empty 20 = Inr [native_gig]"
    by simp
  have l2: "gigs_loop example_env [dated_gig, undated_gig] [] = Inl (ValidationError (ascii ''date''))"
    by (simp add: normalize_dated normalize_undated)
  have l3: "gigs_loop ?one [native_gig] [] = Inr [?g]"
    by (simp add: normalize_native)
  have "list_gigs ?down 20 = Ok []"
    using list_gigs_swallows_errors [of ?down 20] q1 by simp
  moreover have "list_gigs example_env 20 = Ok []"
    using list_gigs_swallows_errors [of example_env 20 _ "[dated_gig, undated_gig]"] q2 l2
    by simp
  moreover have "list_gigs ?one 20 = Ok [?g]"
    using list_gigs_swallows_errors [of ?one 20 _ "[native_gig]" "[?g]"] q3 l3 by simp
  ultimately show ?thesis using l2 by simp
qed

text \<open>
  Claim C7: the query and the whole loop share one \<open>try\<close> block, so one record whose
  \<open>Gig\<close> cannot be built makes \<open>list_gigs\<close> return the empty list; the records of
  the batch that were converted are discarded with it.
\<close>

theorem failing_record_empties_batch:
  assumes "get_documents E (ascii ''gig'') Map.empty limit = Inr docs"
    and "i < length docs"
    and "normalize E i (docs ! i) = Inl e"
  shows "list_gigs E limit = Ok []"
proof -
  from gigs_loop_fails [of i docs E "[]" e] assms(2,3)
  obtain e' where "gigs_loop E docs [] = Inl e'" by auto
  with assms(1) show ?thesis
    by (simp add: list_gigs_def list_gigs_try_def)
qed

text \<open>
  Witness for C7: the first record of the batch is converted, the second has no date, and
  the answer is empty.
\<close>

theorem failing_record_empties_batch_witness:
  "(\<exists>g. normalize example_env 0 dated_gig = Inr g)
   \<and> normalize example_env 1 undated_gig = Inl (ValidationError (ascii ''date''))
   \<and> list_gigs example_env 20 = Ok []"
proof -
  have q: "get_documents example_env (ascii ''gig'') Map.empty 20 = Inr [dated_gig, undated_gig]"
    by (simp add: example_env_def)
  have len: "1 < length [dated_gig, undated_gig]" by simp
  have bad: "normalize example_env 1 ([dated_gig, undated_gig] ! 1) = Inl (ValidationError (ascii ''date''))"
    by (simp add: normalize_undated)
  from failing_record_empties_batch [OF q len bad] normalize_dated [of 0] normalize_undated [of example_env 1]
  show ?thesis by simp
qed

section \<open>The contact endpoint\<close>

text \<open>
  Claim C6: \<open>submit_contact\<close> returns \<open>{status: "ok", id: doc_id}\<close> with the
  identifier from \<open>create_document\<close> exactly when that call succeeds; when it raises,
  \<open>submit_contact\<close> raises an \<open>HTTPException\<close> with status 500 whose detail is the
  text of the exception.
\<close>

theorem submit_contact_outcomes:
  "(create_document E (ascii ''message'') message = Inr doc_id
      \<longrightarrow> submit_contact E message = Ok [ascii ''status'' \<mapsto> ascii ''ok'', ascii ''id'' \<mapsto> doc_id])
   \<and> (create_document E (ascii ''message'') message = Inl e
      \<longrightarrow> submit_contact E message = HTTPException 500 (str_exn e))
   \<and> ((\<exists>body. submit_contact E message = Ok body)
      \<longleftrightarrow> (\<exists>doc_id. create_document E (ascii ''message'') message = Inr doc_id))"
  by (auto simp: submit_contact_def split: sum.splits)

text \<open>Witness for C6: a store that accepts the message, and one that raises.\<close>

theorem submit_contact_outcomes_witness:
  "submit_contact example_env (ascii ''hello'')
     = Ok [ascii ''status'' \<mapsto> ascii ''ok'', ascii ''id'' \<mapsto> ascii ''65f1c0de'']
   \<and> submit_contact
        (example_env\<lparr>create_document :=
           \<lambda>kind message. Inl (OtherException (ascii ''Database not available''))\<rparr>)
        (ascii ''hello'')
     = HTTPException 500 (ascii ''Database not available'')"
proof -
  let ?down = "example_env\<lparr>create_document :=
           \<lambda>kind message. Inl (OtherException (ascii ''Database not available''))\<rparr>"
  have ok: "create_document example_env (ascii ''message'') (ascii ''hello'') = Inr (ascii ''65f1c0de'')"
    by (simp add: example_env_def)
  have ko: "create_document ?down (ascii ''message'') (ascii ''hello'')
              = Inl (OtherException (ascii ''Database not available''))"
    by simp
  from submit_contact_outcomes [of example_env "ascii ''hello''" "ascii ''65f1c0de''"] ok
    submit_contact_outcomes [of ?down "ascii ''hello''" _ "OtherException (ascii ''Database not available'')"] ko
  show ?thesis by simp
qed

section \<open>The diagnostic endpoint\<close>

lemmas test_database_defs = test_database_def test_database_except_def test_database_try_def
  list_collections_def initial_report_def Let_def

lemma name_of_example_db: "name_or_connected example_db = Inr (PStr (ascii ''maffa''))"
  by (simp add: name_or_connected_def example_db_def)

lemma short_message: "take 50 (ascii ''not authorized'') = ascii ''not authorized''"
  by (simp add: ascii_def)

lemma ascii_Nil_iff: "ascii s = [] \<longleftrightarrow> s = []"
  by (simp add: ascii_def)

text \<open>
  Claim C8: \<open>test_database\<close> never fails. Whatever the import of the database module
  gives and whatever the handle does, it returns a report whose \<open>database\<close> field
  tells the state: module not importable, another error, client not initialised,
  connected and working, or connected with an error while listing the collections (the
  text of an error is cut to its first 50 characters).
\<close>

theorem test_database_never_fails:
  "\<exists>r. test_database E = Ok r
     \<and> (import_db E = Inl e \<and> is_ImportError e \<longrightarrow>
          database r = cross_mark @ ascii '' Database module not found (run enable-database first)'')
     \<and> (import_db E = Inl e \<and> \<not> is_ImportError e \<longrightarrow>
          database r = cross_mark @ ascii '' Error: '' @ take 50 (str_exn e))
     \<and> (import_db E = Inr None \<longrightarrow>
          database r = warning_sign @ ascii ''  Available but not initialized''
          \<and> connection_status r = ascii ''Not Connected'')
     \<and> (import_db E = Inr (Some db) \<and> name_or_connected db = Inl e \<longrightarrow>
          database r = (if is_ImportError e
            then cross_mark @ ascii '' Database module not found (run enable-database first)''
            else cross_mark @ ascii '' Error: '' @ take 50 (str_exn e)))
     \<and> (import_db E = Inr (Some db) \<and> name_or_connected db = Inr n
          \<and> list_collection_names db = Inr cs \<longrightarrow>
          database r = check_mark @ ascii '' Connected & Working''
          \<and> connection_status r = ascii ''Connected'')
     \<and> (import_db E = Inr (Some db) \<and> name_or_connected db = Inr n
          \<and> list_collection_names db = Inl e \<longrightarrow>
          database r = warning_sign @ ascii ''  Connected but Error: '' @ take 50 (str_exn e)
          \<and> connection_status r = ascii ''Connected'')"
  by (simp add: test_database_defs split: sum.splits option.splits)

text \<open>
  Witness for C8: a missing module, an import that raises another error, an
  uninitialised client, a handle whose \<open>name\<close> raises, a working handle, and a handle
  that raises while listing its collections.
\<close>

theorem test_database_never_fails_witness:
  "(\<exists>r. test_database (example_env\<lparr>import_db := Inl (ImportError (ascii ''No module named database''))\<rparr>) = Ok r
        \<and> database r = cross_mark @ ascii '' Database module not found (run enable-database first)'')
   \<and> (\<exists>r. test_database (example_env\<lparr>import_db := Inl (OtherException (ascii ''not authorized''))\<rparr>) = Ok r
        \<and> database r = cross_mark @ ascii '' Error: '' @ ascii ''not authorized'')
   \<and> (\<exists>r. test_database (example_env\<lparr>import_db := Inr None\<rparr>) = Ok r
        \<and> database r = warning_sign @ ascii ''  Available but not initialized''
        \<and> connection_status r = ascii ''Not Connected'')
   \<and> (\<exists>r. test_database
             (example_env\<lparr>import_db := Inr (Some (example_db\<lparr>name_attr :=
                AttrRaises (OtherException (ascii ''not authorized''))\<rparr>))\<rparr>) = Ok r
        \<and> database r = cross_mark @ ascii '' Error: '' @ ascii ''not authorized'')
   \<and> (\<exists>r. test_database example_env = Ok r
        \<and> database r = check_mark @ ascii '' Connected & Working''
        \<and> connection_status r = ascii ''Connected'')
   \<and> (\<exists>r. test_database
             (example_env\<lparr>import_db := Inr (Some (example_db\<lparr>list_collection_names :=
                Inl (OtherException (ascii ''not authorized''))\<rparr>))\<rparr>) = Ok r
        \<and> database r = warning_sign @ ascii ''  Connected but Error: '' @ ascii ''not authorized''
        \<and> connection_status r = ascii ''Connected'')"
proof -
  let ?refused = "OtherException (ascii ''not authorized'')"
  let ?missing = "ImportError (ascii ''No module named database'')"
  let ?noname = "example_db\<lparr>name_attr := AttrRaises ?refused\<rparr>"
  let ?nolist = "example_db\<lparr>list_collection_names := Inl ?refused\<rparr>"
  have names: "list_collection_names example_db
     = Inr (map ascii [''gig'', ''message'', ''mix'', ''track'', ''venue'', ''press'',
                        ''photo'', ''video'', ''booking'', ''rider'', ''newsletter'', ''session''])"
    by (simp add: example_db_def)
  have noname: "name_or_connected ?noname = Inl ?refused"
    by (simp add: name_or_connected_def)
  have nolist: "name_or_connected ?nolist = Inr (PStr (ascii ''maffa''))"
    by (simp add: name_or_connected_def example_db_def)
  have db: "import_db example_env = Inr (Some example_db)"
    by (simp add: example_env_def)
  have c1: "\<exists>r. test_database (example_env\<lparr>import_db := Inl ?missing\<rparr>) = Ok r
        \<and> database r = cross_mark @ ascii '' Database module not found (run enable-database first)''"
    using test_database_never_fails [of "example_env\<lparr>import_db := Inl ?missing\<rparr>" ?missing]
    by auto
  have c2: "\<exists>r. test_database (example_env\<lparr>import_db := Inl ?refused\<rparr>) = Ok r
        \<and> database r = cross_mark @ ascii '' Error: '' @ ascii ''not authorized''"
    using test_database_never_fails [of "example_env\<lparr>import_db := Inl ?refused\<rparr>" ?refused]
    by (auto simp: short_message)
  have c3: "\<exists>r. test_database (example_env\<lparr>import_db := Inr None\<rparr>) = Ok r
        \<and> database r = warning_sign @ ascii ''  Available but not initialized''
        \<and> connection_status r = ascii ''Not Connected''"
    using test_database_never_fails [of "example_env\<lparr>import_db := Inr None\<rparr>"]
    by auto
  have c4: "\<exists>r. test_database (example_env\<lparr>import_db := Inr (Some ?noname)\<rparr>) = Ok r
        \<and> database r = cross_mark @ ascii '' Error: '' @ ascii ''not authorized''"
    using test_database_never_fails
      [of "example_env\<lparr>import_db := Inr (Some ?noname)\<rparr>" ?refused ?noname] noname
    by (auto simp: short_message)
  have c5: "\<exists>r. test_database example_env = Ok r
        \<and> database r = check_mark @ ascii '' Connected & Working''
        \<and> connection_status r = ascii ''Connected''"
    using test_database_never_fails [of example_env _ example_db "PStr (ascii ''maffa'')"]
      db name_of_example_db names
    by auto
  have c6: "\<exists>r. test_database (example_env\<lparr>import_db := Inr (Some ?nolist)\<rparr>) = Ok r
        \<and> database r = warning_sign @ ascii ''  Connected but Error: '' @ ascii ''not authorized''
        \<and> connection_status r = ascii ''Connected''"
    using test_database_never_fails
      [of "example_env\<lparr>import_db := Inr (Some ?nolist)\<rparr>" ?refused ?nolist "PStr (ascii ''maffa'')"]
      nolist
    by (auto simp: short_message)
  from c1 c2 c3 c4 c5 c6 show ?thesis by blast
qed

text \<open>
  Claim C10: when the collections are listed without an error, the \<open>collections\<close> field
  of the report is the first ten names in the order the store returned them: at most ten
  names, and exactly ten when the store returned more.
\<close>

theorem collections_first_ten:
  assumes "import_db E = Inr (Some db)"
    and "name_or_connected db = Inr n"
    and "list_collection_names db = Inr cs"
  shows "\<exists>r. test_database E = Ok r
           \<and> collections r = take 10 cs
           \<and> length (collections r) \<le> 10
           \<and> (10 < length cs \<longrightarrow> length (collections r) = 10)"
  using assms by (simp add: test_database_defs)

text \<open>Witness for C10: a store with twelve collections; the report lists the first ten.\<close>

theorem collections_first_ten_witness:
  "\<exists>r. test_database example_env = Ok r
      \<and> collections r = map ascii [''gig'', ''message'', ''mix'', ''track'', ''venue'', ''press'',
                                    ''photo'', ''video'', ''booking'', ''rider'']
      \<and> length (collections r) = 10"
proof -
  let ?names = "map ascii [''gig'', ''message'', ''mix'', ''track'', ''venue'', ''press'',
                        ''photo'', ''video'', ''booking'', ''rider'', ''newsletter'', ''session'']"
  have db: "import_db example_env = Inr (Some example_db)"
    by (simp add: example_env_def)
  have names: "list_collection_names example_db = Inr ?names"
    by (simp add: example_db_def)
  from collections_first_ten [OF db name_of_example_db names]
  show ?thesis by auto
qed

text \<open>
  Claim C9, as stated, fails: the report depends on more than the presence of
  \<open>DATABASE_URL\<close>. The test is the truth value of \<open>os.getenv(...)\<close>, so a variable set
  to the empty string reads as not set: two environments that both set the variable, to
  different values, get different reports.
\<close>

theorem empty_value_reads_as_not_set:
  "getenv (example_env\<lparr>import_db := Inr None,
                       getenv := [ascii ''DATABASE_URL'' \<mapsto> []]\<rparr>) (ascii ''DATABASE_URL'')
     = Some []
   \<and> getenv (example_env\<lparr>import_db := Inr None,
                         getenv := [ascii ''DATABASE_URL'' \<mapsto> ascii ''mongodb://db:27017'']\<rparr>)
       (ascii ''DATABASE_URL'') = Some (ascii ''mongodb://db:27017'')
   \<and> test_database (example_env\<lparr>import_db := Inr None,
                                getenv := [ascii ''DATABASE_URL'' \<mapsto> []]\<rparr>)
     = Ok \<lparr>backend = check_mark @ ascii '' Running'',
           database = warning_sign @ ascii ''  Available but not initialized'',
           database_url = PStr (cross_mark @ ascii '' Not Set''),
           database_name = PStr (cross_mark @ ascii '' Not Set''),
           connection_status = ascii ''Not Connected'',
           collections = []\<rparr>
   \<and> test_database (example_env\<lparr>import_db := Inr None,
                                getenv := [ascii ''DATABASE_URL'' \<mapsto> ascii ''mongodb://db:27017'']\<rparr>)
     = Ok \<lparr>backend = check_mark @ ascii '' Running'',
           database = warning_sign @ ascii ''  Available but not initialized'',
           database_url = PStr (check_mark @ ascii '' Set''),
           database_name = PStr (cross_mark @ ascii '' Not Set''),
           connection_status = ascii ''Not Connected'',
           collections = []\<rparr>
   \<and> test_database (example_env\<lparr>import_db := Inr None,
                                getenv := [ascii ''DATABASE_URL'' \<mapsto> []]\<rparr>)
     \<noteq> test_database (example_env\<lparr>import_db := Inr None,
                                  getenv := [ascii ''DATABASE_URL'' \<mapsto> ascii ''mongodb://db:27017'']\<rparr>)"
  by (simp add: test_database_defs set_marker_def os_getenv_def ascii_eq_iff ascii_Nil_iff
        check_mark_def cross_mark_def)

text \<open>
  Claim C9, amended: the report depends on \<open>DATABASE_URL\<close> and \<open>DATABASE_NAME\<close> only
  through whether each is set to a non-empty value. Two runs with the same outcome of the
  database import that agree on this for both variables return the same report, whatever
  the values; the \<open>database_url\<close> and \<open>database_name\<close> fields are one of the two fixed
  markers and never the value.
\<close>

theorem report_depends_on_truthiness:
  assumes "import_db E1 = import_db E2"
    and "(getenv E1 (ascii ''DATABASE_URL'') = None \<or> getenv E1 (ascii ''DATABASE_URL'') = Some [])
       \<longleftrightarrow> (getenv E2 (ascii ''DATABASE_URL'') = None \<or> getenv E2 (ascii ''DATABASE_URL'') = Some [])"
    and "(getenv E1 (ascii ''DATABASE_NAME'') = None \<or> getenv E1 (ascii ''DATABASE_NAME'') = Some [])
       \<longleftrightarrow> (getenv E2 (ascii ''DATABASE_NAME'') = None \<or> getenv E2 (ascii ''DATABASE_NAME'') = Some [])"
  shows "test_database E1 = test_database E2
     \<and> (\<exists>r. test_database E1 = Ok r
          \<and> database_url r \<in> {PStr (check_mark @ ascii '' Set''), PStr (cross_mark @ ascii '' Not Set'')}
          \<and> database_name r \<in> {PStr (check_mark @ ascii '' Set''), PStr (cross_mark @ ascii '' Not Set'')})"
proof -
  have m: "set_marker E1 k = set_marker E2 k"
    if "(getenv E1 k = None \<or> getenv E1 k = Some []) \<longleftrightarrow> (getenv E2 k = None \<or> getenv E2 k = Some [])"
    for k
    using that by (auto simp: set_marker_def os_getenv_def split: option.splits)
  have "test_database E1 = test_database E2"
    by (simp add: test_database_def test_database_try_def assms(1) m [OF assms(2)] m [OF assms(3)])
  moreover have "\<exists>r. test_database E1 = Ok r
          \<and> database_url r \<in> {PStr (check_mark @ ascii '' Set''), PStr (cross_mark @ ascii '' Not Set'')}
          \<and> database_name r \<in> {PStr (check_mark @ ascii '' Set''), PStr (cross_mark @ ascii '' Not Set'')}"
    by (simp add: test_database_def Let_def set_marker_def)
  ultimately show ?thesis by blast
qed

text \<open>
  Witness for C9: two environments with different non-empty URLs, one with an empty
  \<open>DATABASE_NAME\<close> and one without the variable, get the same report.
\<close>

theorem report_depends_on_truthiness_witness:
  "test_database
     (example_env\<lparr>getenv := [ascii ''DATABASE_URL'' \<mapsto> ascii ''mongodb://db:27017'',
                               ascii ''DATABASE_NAME'' \<mapsto> []]\<rparr>)
   = test_database
       (example_env\<lparr>getenv := [ascii ''DATABASE_URL'' \<mapsto> ascii ''mongodb://elsewhere'']\<rparr>)
   \<and> (\<exists>r. test_database
             (example_env\<lparr>getenv := [ascii ''DATABASE_URL'' \<mapsto> ascii ''mongodb://db:27017'',
                                       ascii ''DATABASE_NAME'' \<mapsto> []]\<rparr>) = Ok r
         \<and> database_url r = PStr (check_mark @ ascii '' Set'')
         \<and> database_name r = PStr (cross_mark @ ascii '' Not Set''))"
proof -
  let ?E1 = "example_env\<lparr>getenv := [ascii ''DATABASE_URL'' \<mapsto> ascii ''mongodb://db:27017'',
                               ascii ''DATABASE_NAME'' \<mapsto> []]\<rparr>"
  let ?E2 = "example_env\<lparr>getenv := [ascii ''DATABASE_URL'' \<mapsto> ascii ''mongodb://elsewhere'']\<rparr>"
  have h1: "import_db ?E1 = import_db ?E2" by simp
  have h2: "(getenv ?E1 (ascii ''DATABASE_URL'') = None \<or> getenv ?E1 (ascii ''DATABASE_URL'') = Some [])
       \<longleftrightarrow> (getenv ?E2 (ascii ''DATABASE_URL'') = None \<or> getenv ?E2 (ascii ''DATABASE_URL'') = Some [])"
    by (simp add: ascii_eq_iff ascii_def [of "''mongodb://db:27017''"] ascii_def [of "''mongodb://elsewhere''"])
  have h3: "(getenv ?E1 (ascii ''DATABASE_NAME'') = None \<or> getenv ?E1 (ascii ''DATABASE_NAME'') = Some [])
       \<longleftrightarrow> (getenv ?E2 (ascii ''DATABASE_NAME'') = None \<or> getenv ?E2 (ascii ''DATABASE_NAME'') = Some [])"
    by (simp add: ascii_eq_iff)
  have u: "set_marker ?E1 (ascii ''DATABASE_URL'') = PStr (check_mark @ ascii '' Set'')"
    by (simp add: set_marker_def os_getenv_def ascii_eq_iff ascii_def [of "''mongodb://db:27017''"])
  have n: "set_marker ?E1 (ascii ''DATABASE_NAME'') = PStr (cross_mark @ ascii '' Not Set'')"
    by (simp add: set_marker_def os_getenv_def ascii_eq_iff)
  have r: "\<exists>r. test_database ?E1 = Ok r
         \<and> database_url r = PStr (check_mark @ ascii '' Set'')
         \<and> database_name r = PStr (cross_mark @ ascii '' Not Set'')"
    by (simp add: test_database_def Let_def u n)
  from report_depends_on_truthiness [OF h1 h2 h3] r show ?thesis by blast
qed

end
